theory Spec2Isabelle
  imports Main
begin

section \<open>The connection lifecycle of index.js\<close>

text \<open>
  The program is a single JavaScript module. Its module-level variables
  (\<^verbatim>\<open>sock\<close>, \<^verbatim>\<open>initialConnection\<close>, \<^verbatim>\<open>isConnecting\<close>, \<^verbatim>\<open>retryCount\<close>)
  are the fields of a state record that every function takes and returns. Everything the
  module does to the outside (logging, timers, \<^verbatim>\<open>process.exit\<close>, calls into the
  socket library, the handlers and the file system) is appended to a trace of effects, in
  the order in which the code performs it. An external call may throw: whether it does is
  decided by an oracle of the world, which sees the trace so far and the call.
\<close>

subsection \<open>Data\<close>

type_synonym jid = string
type_synonym msg = string
type_synonym json = string

text \<open>The payload of a \<^verbatim>\<open>group-participants.update\<close> event (\<^verbatim>\<open>update.id\<close>,
  \<^verbatim>\<open>update.participants\<close>).\<close>

record participants_update =
  update_id :: jid
  participants :: "jid list"

text \<open>JavaScript values handed to \<^verbatim>\<open>eventHandler.handleEvent\<close> after the socket.\<close>

datatype arg = Undefined | Str string | Msg msg | GroupUpdate json

text \<open>A socket is identified by the number of sockets built before it; \<^verbatim>\<open>null\<close> is
  \<open>None\<close>.\<close>

type_synonym socket = "nat option"

datatype effect =
    Log_info string
  | Log_reconnecting nat
  | Log_error string
  | SetTimeout nat
  | Exit nat
  | ToLocaleString
  | ToLocaleDateString
  | UseMultiFileAuthState
  | FetchLatestBaileysVersion
  | MakeWASocket nat
  | On nat string
  | SendMessage socket jid
  | HandleMessage socket msg
  | HandleGroupParticipantsUpdate socket participants_update
  | HandleGroupUpdate socket json
  | HandleEvent string socket "arg list"
  | EmptyDir
  | WriteJSON string json

text \<open>
  What the module does not define itself: the outcome of every external call
  (\<open>throws w tr e\<close>: after the trace \<open>tr\<close>, the call \<open>e\<close> throws or rejects),
  the library constant \<^verbatim>\<open>DisconnectReason.loggedOut\<close>, the configured
  \<^verbatim>\<open>config.bot.ownerNumber\<close>, the two library functions applied to
  \<^verbatim>\<open>process.env.SESSION_DATA\<close> (\<open>None\<close> when the library call throws), and whether
  the message of the error thrown last, after the trace \<open>tr\<close>, contains
  \<^verbatim>\<open>Session closed\<close> (\<open>session_closed w tr\<close>).
\<close>

record world =
  throws :: "effect list \<Rightarrow> effect \<Rightarrow> bool"
  loggedOut :: int
  ownerNumber :: "jid list"
  base64_decode :: "string \<Rightarrow> string option"
  JSON_parse :: "string \<Rightarrow> json option"
  session_closed :: "effect list \<Rightarrow> bool"

text \<open>
  \<open>timers\<close> counts the pending \<^verbatim>\<open>setTimeout(connectToWhatsApp, 5000)\<close> callbacks,
  \<open>sockets\<close> the sockets built so far, \<open>files\<close> is the content of the session directory
  \<^verbatim>\<open>auth_info_baileys\<close>, by file name.
\<close>

record state =
  sock :: socket
  initialConnection :: bool
  isConnecting :: bool
  retryCount :: nat
  timers :: nat
  sockets :: nat
  files :: "string \<rightharpoonup> json"
  trace :: "effect list"

definition MAX_RETRIES :: nat where
  "MAX_RETRIES = 5"

definition init :: state where
  "init = \<lparr>sock = None, initialConnection = True, isConnecting = False, retryCount = 0,
           timers = 0, sockets = 0, files = Map.empty, trace = []\<rparr>"

subsection \<open>Effects\<close>

definition emit :: "effect \<Rightarrow> state \<Rightarrow> state" where
  "emit e s = s\<lparr>trace := trace s @ [e]\<rparr>"

text \<open>An external call: it is recorded, and the second component tells whether it threw.\<close>

definition call :: "world \<Rightarrow> effect \<Rightarrow> state \<Rightarrow> state \<times> bool" where
  "call w e s = (emit e s, throws w (trace s) e)"

definition setTimeout :: "state \<Rightarrow> state" where
  "setTimeout s = emit (SetTimeout 5000) (s\<lparr>timers := timers s + 1\<rparr>)"

subsection \<open>processSessionData\<close>

text \<open>
  The body of the \<^verbatim>\<open>try\<close> block: decode and parse, empty the directory, write
  \<^verbatim>\<open>creds.json\<close>. The second component is \<open>True\<close> when the block threw. A file-system
  call that throws is taken to leave the directory as it was.
\<close>

definition processSessionData_try :: "world \<Rightarrow> string \<Rightarrow> state \<Rightarrow> state \<times> bool" where
  "processSessionData_try w blob s =
     (case base64_decode w blob of
        None \<Rightarrow> (s, True)
      | Some decoded \<Rightarrow>
          (case JSON_parse w decoded of
             None \<Rightarrow> (s, True)
           | Some sessionData \<Rightarrow>
               (let (s1, t1) = call w EmptyDir s in
                if t1 then (s1, True)
                else
                  (let s2 = s1\<lparr>files := Map.empty\<rparr>;
                       (s3, t3) = call w (WriteJSON ''creds.json'' sessionData) s2 in
                   if t3 then (s3, True)
                   else (s3\<lparr>files := (files s3)(''creds.json'' \<mapsto> sessionData)\<rparr>, False)))))"

text \<open>\<^verbatim>\<open>!process.env.SESSION_DATA\<close> holds for an unset variable and for the empty string.\<close>

definition processSessionData :: "world \<Rightarrow> string option \<Rightarrow> state \<Rightarrow> state \<times> bool" where
  "processSessionData w SESSION_DATA s =
     (case SESSION_DATA of
        None \<Rightarrow> (s, False)
      | Some blob \<Rightarrow>
          if blob = [] then (s, False)
          else
            (let (s1, threw) = processSessionData_try w blob s in
             if threw then (emit (Log_error ''Session data processing failed:'') s1, False)
             else (s1, True)))"

subsection \<open>sendStartupMessage and the loop over the owners\<close>

text \<open>
  Before its \<^verbatim>\<open>try\<close> the function formats the time and the date in
  \<^verbatim>\<open>config.bot.timezone\<close>; either call may throw (a time zone that the runtime does
  not know), and that error leaves the function. Only the send is inside the
  \<^verbatim>\<open>try\<close>. The second component is \<open>True\<close> when the function threw.
\<close>

definition sendStartupMessage :: "world \<Rightarrow> socket \<Rightarrow> jid \<Rightarrow> state \<Rightarrow> state \<times> bool" where
  "sendStartupMessage w sk j s =
     (let (s1, t1) = call w ToLocaleString s in
      if t1 then (s1, True)
      else
        (let (s2, t2) = call w ToLocaleDateString s1 in
         if t2 then (s2, True)
         else
           (let (s3, t3) = call w (SendMessage sk j) s2 in
            if t3 then (emit (Log_error ''Failed to send startup message:'') s3, False)
            else (s3, False))))"

text \<open>The loop of the open branch: each call is awaited, and a call that throws ends
  the loop.\<close>

fun notify_owners :: "world \<Rightarrow> jid list \<Rightarrow> state \<Rightarrow> state \<times> bool" where
  "notify_owners w [] s = (s, False)"
| "notify_owners w (owner # rest) s =
     (let (s1, threw) = sendStartupMessage w (sock s) owner s in
      if threw then (s1, True) else notify_owners w rest s1)"

subsection \<open>The handler for rejected promises\<close>

text \<open>
  \<^verbatim>\<open>initialize\<close> installs it for \<^verbatim>\<open>unhandledRejection\<close>: it logs the error and
  calls \<^verbatim>\<open>process.exit(1)\<close> when the message of the error contains
  \<^verbatim>\<open>Session closed\<close>.
\<close>

definition unhandledRejection :: "world \<Rightarrow> state \<Rightarrow> state" where
  "unhandledRejection w s =
     (let s1 = emit (Log_error ''Unhandled rejection:'') s in
      if session_closed w (trace s) then emit (Exit 1) s1 else s1)"

subsection \<open>The \<^verbatim>\<open>connection.update\<close> listener\<close>

text \<open>
  \<open>connection\<close> is the field of the update (\<open>None\<close> when absent), \<open>statusCode\<close> the
  value of \<^verbatim>\<open>lastDisconnect?.error?.output?.statusCode\<close> (\<open>None\<close> when any link of the
  chain is undefined). \<^verbatim>\<open>process.exit\<close> does not return: no statement of the listener
  follows it on its path. The open branch throws when the loop over the owners does (the
  second component of \<open>on_open\<close>): the promise of the listener then rejects, nothing
  handles it, and the handler above runs.
\<close>

definition on_close :: "world \<Rightarrow> int option \<Rightarrow> state \<Rightarrow> state" where
  "on_close w statusCode s =
     (let shouldReconnect = (statusCode \<noteq> Some (loggedOut w));
          s1 = s\<lparr>isConnecting := False\<rparr> in
      if shouldReconnect \<and> retryCount s1 < MAX_RETRIES then
        (let s2 = s1\<lparr>retryCount := retryCount s1 + 1\<rparr> in
         setTimeout (emit (Log_reconnecting (retryCount s2)) s2))
      else emit (Exit 1) (emit (Log_error ''Connection terminated'') s1))"

definition on_open :: "world \<Rightarrow> state \<Rightarrow> state \<times> bool" where
  "on_open w s =
     (let s1 = emit (Log_info ''Connected to WhatsApp'')
                 (s\<lparr>retryCount := 0, isConnecting := False\<rparr>) in
      if initialConnection s1 then
        notify_owners w (ownerNumber w) (s1\<lparr>initialConnection := False\<rparr>)
      else (s1, False))"

definition connection_update :: "world \<Rightarrow> string option \<Rightarrow> int option \<Rightarrow> state \<Rightarrow> state" where
  "connection_update w connection statusCode s =
     (if connection = Some ''close'' then on_close w statusCode s
      else if connection = Some ''open'' then
        (let (s1, rejected) = on_open w s in
         if rejected then unhandledRejection w s1 else s1)
      else s)"

subsection \<open>The message and group listeners\<close>

text \<open>One iteration of the loop of the \<^verbatim>\<open>messages.upsert\<close> listener: both calls are in
  one \<^verbatim>\<open>try\<close> block.\<close>

definition route_message :: "world \<Rightarrow> msg \<Rightarrow> state \<Rightarrow> state" where
  "route_message w m s =
     (let (s1, t1) = call w (HandleMessage (sock s) m) s in
      if t1 then emit (Log_error ''Message handling failed:'') s1
      else
        (let (s2, t2) = call w (HandleEvent ''message'' (sock s1) [Msg m]) s1 in
         if t2 then emit (Log_error ''Message handling failed:'') s2 else s2))"

fun route_messages :: "world \<Rightarrow> msg list \<Rightarrow> state \<Rightarrow> state" where
  "route_messages w [] s = s"
| "route_messages w (m # ms) s = route_messages w ms (route_message w m s)"

definition messages_upsert :: "world \<Rightarrow> msg list \<Rightarrow> string \<Rightarrow> state \<Rightarrow> state" where
  "messages_upsert w messages type s =
     (if type = ''notify'' then route_messages w messages s else s)"

text \<open>\<^verbatim>\<open>update.participants[0]\<close>: reading past the end of a JavaScript array gives
  \<^verbatim>\<open>undefined\<close>.\<close>

definition first_participant :: "jid list \<Rightarrow> arg" where
  "first_participant ps = (case ps of [] \<Rightarrow> Undefined | p # _ \<Rightarrow> Str p)"

text \<open>
  The group listeners have no \<^verbatim>\<open>try\<close>: a throwing handler ends the listener, whose
  promise rejects. The second component is \<open>True\<close> in that case.
\<close>

definition group_participants_update ::
    "world \<Rightarrow> participants_update \<Rightarrow> state \<Rightarrow> state \<times> bool" where
  "group_participants_update w update s =
     (let (s1, t1) = call w (HandleGroupParticipantsUpdate (sock s) update) s in
      if t1 then (s1, True)
      else call w (HandleEvent ''groupMemberJoin'' (sock s1)
                     [Str (update_id update), first_participant (participants update)]) s1)"

fun groups_update :: "world \<Rightarrow> json list \<Rightarrow> state \<Rightarrow> state \<times> bool" where
  "groups_update w [] s = (s, False)"
| "groups_update w (update # updates) s =
     (let (s1, t1) = call w (HandleGroupUpdate (sock s) update) s in
      if t1 then (s1, True)
      else
        (let (s2, t2) = call w (HandleEvent ''groupUpdate'' (sock s1) [GroupUpdate update]) s1 in
         if t2 then (s2, True) else groups_update w updates s2))"

subsection \<open>connectToWhatsApp\<close>

text \<open>The \<^verbatim>\<open>try\<close> block: three calls that may throw, then the five subscriptions.\<close>

definition subscribe :: "nat \<Rightarrow> state \<Rightarrow> state" where
  "subscribe k s =
     emit (On k ''groups.update'')
       (emit (On k ''group-participants.update'')
          (emit (On k ''messages.upsert'')
             (emit (On k ''creds.update'')
                (emit (On k ''connection.update'') s))))"

definition connect_try :: "world \<Rightarrow> state \<Rightarrow> state \<times> bool" where
  "connect_try w s =
     (let (s1, t1) = call w UseMultiFileAuthState s in
      if t1 then (s1, True)
      else
        (let (s2, t2) = call w FetchLatestBaileysVersion s1 in
         if t2 then (s2, True)
         else
           (let (s3, t3) = call w (MakeWASocket (sockets s2)) s2 in
            if t3 then (s3, True)
            else
              (let k = sockets s3;
                   s4 = s3\<lparr>sock := Some k, sockets := k + 1\<rparr> in
               (subscribe k s4, False)))))"

definition connect_catch :: "state \<Rightarrow> state" where
  "connect_catch s =
     (let s1 = emit (Log_error ''Connection error:'') (s\<lparr>isConnecting := False\<rparr>) in
      if retryCount s1 < MAX_RETRIES then setTimeout (s1\<lparr>retryCount := retryCount s1 + 1\<rparr>)
      else emit (Exit 1) s1)"

definition connectToWhatsApp :: "world \<Rightarrow> state \<Rightarrow> state \<times> socket" where
  "connectToWhatsApp w s =
     (if isConnecting s then (s, None)
      else
        (let (s1, threw) = connect_try w (s\<lparr>isConnecting := True\<rparr>) in
         if threw then (connect_catch s1, None) else (s1, sock s1)))"

subsection \<open>The process\<close>

text \<open>
  The events that drive the lifecycle: a \<^verbatim>\<open>connection.update\<close> from the socket, which
  needs a socket with its listener, and a pending timer that fires and calls
  \<^verbatim>\<open>connectToWhatsApp\<close>. Once \<^verbatim>\<open>process.exit\<close> has been called the process is gone
  and handles no further event. A listener is taken to run to its end before the next event
  is handled.
\<close>

datatype event = ConnectionUpdate "string option" "int option" | TimerFires

fun is_exit :: "effect \<Rightarrow> bool" where
  "is_exit (Exit c) = True"
| "is_exit _ = False"

definition exit_calls :: "state \<Rightarrow> effect list" where
  "exit_calls s = filter is_exit (trace s)"

definition terminated :: "state \<Rightarrow> bool" where
  "terminated s = (exit_calls s \<noteq> [])"

fun step :: "world \<Rightarrow> event \<Rightarrow> state \<Rightarrow> state" where
  "step w (ConnectionUpdate connection statusCode) s =
     (if sock s = None then s else connection_update w connection statusCode s)"
| "step w TimerFires s =
     (if timers s = 0 then s else fst (connectToWhatsApp w (s\<lparr>timers := timers s - 1\<rparr>)))"

fun run :: "world \<Rightarrow> event list \<Rightarrow> state \<Rightarrow> state" where
  "run w [] s = s"
| "run w (e # es) s = (if terminated s then s else run w es (step w e s))"

text \<open>\<^verbatim>\<open>initialize\<close> calls \<^verbatim>\<open>connectToWhatsApp\<close> once: the lifecycle starts from there.\<close>

definition boot :: "world \<Rightarrow> state" where
  "boot w = fst (connectToWhatsApp w init)"

subsection \<open>Observations on a trace\<close>

text \<open>The recipients of the startup messages sent so far, and the messages handed to
  \<^verbatim>\<open>messageHandler.handleMessage\<close> so far, both in order.\<close>

fun recipient :: "effect \<Rightarrow> jid list" where
  "recipient (SendMessage sk j) = [j]"
| "recipient _ = []"

definition sent_to :: "state \<Rightarrow> jid list" where
  "sent_to s = concat (map recipient (trace s))"

fun handled :: "effect \<Rightarrow> msg list" where
  "handled (HandleMessage sk m) = [m]"
| "handled _ = []"

definition handled_msgs :: "state \<Rightarrow> msg list" where
  "handled_msgs s = concat (map handled (trace s))"

fun is_handle_event :: "effect \<Rightarrow> bool" where
  "is_handle_event (HandleEvent kind sk args) = True"
| "is_handle_event _ = False"

fun is_timeout :: "effect \<Rightarrow> bool" where
  "is_timeout (SetTimeout ms) = True"
| "is_timeout _ = False"

definition scheduled :: "state \<Rightarrow> effect list" where
  "scheduled s = filter is_timeout (trace s)"




text \<open>A close that is not a logout; an event that is neither an open nor a logout; and a
  world in which no call of the \<^verbatim>\<open>try\<close> block of \<^verbatim>\<open>connectToWhatsApp\<close> ever
  throws.\<close>

fun is_transient_close :: "world \<Rightarrow> event \<Rightarrow> bool" where
  "is_transient_close w (ConnectionUpdate connection statusCode) =
     (connection = Some ''close'' \<and> statusCode \<noteq> Some (loggedOut w))"
| "is_transient_close w TimerFires = False"

fun no_open_no_logout :: "world \<Rightarrow> event \<Rightarrow> bool" where
  "no_open_no_logout w TimerFires = True"
| "no_open_no_logout w (ConnectionUpdate connection statusCode) =
     (connection \<noteq> Some ''open''
      \<and> \<not> (connection = Some ''close'' \<and> statusCode = Some (loggedOut w)))"

definition connects_succeed :: "world \<Rightarrow> bool" where
  "connects_succeed w =
     (\<forall>tr. \<not> throws w tr UseMultiFileAuthState \<and> \<not> throws w tr FetchLatestBaileysVersion
          \<and> (\<forall>k. \<not> throws w tr (MakeWASocket k)))"

subsection \<open>Concrete worlds and states\<close>

text \<open>
  A world in which nothing throws. Its decoder knows two blobs, the base64 of \<^verbatim>\<open>{}\<close>
  and of \<^verbatim>\<open>not json\<close>, and its parser accepts \<^verbatim>\<open>{}\<close> only.
\<close>

definition quiet_world :: world where
  "quiet_world =
     \<lparr>throws = (\<lambda>tr e. False), loggedOut = 401,
      ownerNumber = [''1@s.whatsapp.net'', ''2@s.whatsapp.net''],
      base64_decode = (\<lambda>b. if b = ''e30='' then Some ''{}''
                            else if b = ''bm90IGpzb24='' then Some ''not json'' else Some []),
      JSON_parse = (\<lambda>t. if t = ''{}'' then Some t else None),
      session_closed = (\<lambda>tr. False)\<rparr>"

text \<open>A world in which the message handlers, the version lookup and the send to the first
  owner throw; one in which the configured time zone is not known; one in which the
  credentials cannot be written.\<close>

fun faulty :: "effect \<Rightarrow> bool" where
  "faulty (HandleMessage sk m) = True"
| "faulty (HandleGroupParticipantsUpdate sk u) = True"
| "faulty FetchLatestBaileysVersion = True"
| "faulty (SendMessage sk j) = (j = ''1@s.whatsapp.net'')"
| "faulty _ = False"

definition faulty_world :: world where
  "faulty_world = quiet_world\<lparr>throws := (\<lambda>tr e. faulty e)\<rparr>"


fun is_write :: "effect \<Rightarrow> bool" where
  "is_write (WriteJSON name content) = True"
| "is_write _ = False"

definition disk_full_world :: world where
  "disk_full_world = quiet_world\<lparr>throws := (\<lambda>tr e. is_write e)\<rparr>"

text \<open>The state after the first \<^verbatim>\<open>connectToWhatsApp\<close> of a process, and after the
  \<^verbatim>\<open>open\<close> that follows it.\<close>

definition connecting :: state where
  "connecting = boot quiet_world"

definition opened :: state where
  "opened = connection_update quiet_world (Some ''open'') None connecting"

definition transient_close :: event where
  "transient_close = ConnectionUpdate (Some ''close'') (Some 428)"

text \<open>Five closes with the reconnects between them (the timer fires, the new socket reports
  that it is connecting), and a sixth.\<close>

definition connecting_update :: event where
  "connecting_update = ConnectionUpdate (Some ''connecting'') None"

definition five_closes :: "event list" where
  "five_closes =
     [transient_close, TimerFires, connecting_update,
      transient_close, TimerFires, connecting_update,
      transient_close, TimerFires, connecting_update,
      transient_close, TimerFires, connecting_update,
      transient_close]"

definition six_closes :: "event list" where
  "six_closes = five_closes @ [TimerFires, connecting_update, transient_close]"

text \<open>Six closes in a row, with no timer firing between them.\<close>

definition closes_in_a_row :: "event list" where
  "closes_in_a_row =
     [transient_close, transient_close, transient_close, transient_close, transient_close,
      transient_close]"

text \<open>A session directory that already holds credentials.\<close>

definition with_creds :: state where
  "with_creds = init\<lparr>files := [''creds.json'' \<mapsto> ''old'', ''pre-key-1.json'' \<mapsto> ''key'']\<rparr>"

text \<open>Group updates: two members join, and one with no participant.\<close>

definition joined :: participants_update where
  "joined = \<lparr>update_id = ''g@g.us'', participants = [''3@s.whatsapp.net'', ''4@s.whatsapp.net'']\<rparr>"

definition nobody :: participants_update where
  "nobody = \<lparr>update_id = ''g@g.us'', participants = []\<rparr>"

section \<open>Auxiliary facts\<close>

text \<open>The definitions of the effects, the concrete states in normal form, and what each
  function does to the fields and projections that the properties below speak about.\<close>

lemmas effect_defs = emit_def call_def setTimeout_def

lemma connecting_eq:
  "connecting =
     \<lparr>sock = Some 0, initialConnection = True, isConnecting = True, retryCount = 0,
      timers = 0, sockets = 1, files = Map.empty,
      trace = [UseMultiFileAuthState, FetchLatestBaileysVersion, MakeWASocket 0,
               On 0 ''connection.update'', On 0 ''creds.update'', On 0 ''messages.upsert'',
               On 0 ''group-participants.update'', On 0 ''groups.update'']\<rparr>"
  by (simp add: connecting_def boot_def connectToWhatsApp_def connect_try_def init_def
        quiet_world_def effect_defs subscribe_def)

lemma opened_eq:
  "opened =
     \<lparr>sock = Some 0, initialConnection = False, isConnecting = False, retryCount = 0,
      timers = 0, sockets = 1, files = Map.empty,
      trace = [UseMultiFileAuthState, FetchLatestBaileysVersion, MakeWASocket 0,
               On 0 ''connection.update'', On 0 ''creds.update'', On 0 ''messages.upsert'',
               On 0 ''group-participants.update'', On 0 ''groups.update'',
               Log_info ''Connected to WhatsApp'',
               ToLocaleString, ToLocaleDateString, SendMessage (Some 0) ''1@s.whatsapp.net'',
               ToLocaleString, ToLocaleDateString, SendMessage (Some 0) ''2@s.whatsapp.net'']\<rparr>"
  by (simp add: opened_def connecting_eq connection_update_def on_open_def
        sendStartupMessage_def quiet_world_def effect_defs)

lemma quiet_connects: "connects_succeed quiet_world"
  by (simp add: connects_succeed_def quiet_world_def)

lemma connecting_obs: "sock connecting \<noteq> None" "retryCount connecting = 0"
  "\<not> terminated connecting" "scheduled connecting = []"
  by (simp_all add: connecting_eq terminated_def exit_calls_def scheduled_def)

lemma five_closes_ok: "list_all (no_open_no_logout quiet_world) five_closes"
  "length (filter (is_transient_close quiet_world) five_closes) = 5"
  by (simp_all add: five_closes_def transient_close_def connecting_update_def quiet_world_def)

lemma six_closes_ok: "list_all (no_open_no_logout quiet_world) six_closes"
  "length (filter (is_transient_close quiet_world) six_closes) = 6"
  by (simp_all add: six_closes_def five_closes_def transient_close_def connecting_update_def
        quiet_world_def)

lemma closes_in_a_row_ok: "TimerFires \<notin> set closes_in_a_row"
  "list_all (no_open_no_logout faulty_world) closes_in_a_row"
  "length (filter (is_transient_close faulty_world) closes_in_a_row) = 6"
  by (simp_all add: closes_in_a_row_def transient_close_def faulty_world_def quiet_world_def)

lemma connect_catch_obs:
  "retryCount (connect_catch s) = (if retryCount s < 5 then retryCount s + 1 else retryCount s)"
  "timers (connect_catch s) = (if retryCount s < 5 then timers s + 1 else timers s)"
  "exit_calls (connect_catch s) =
     (if retryCount s < 5 then exit_calls s else exit_calls s @ [Exit 1])"
  by (simp_all add: connect_catch_def MAX_RETRIES_def effect_defs exit_calls_def)

lemma connect_try_obs:
  "retryCount (fst (connect_try w s)) = retryCount s"
  "timers (fst (connect_try w s)) = timers s"
  "exit_calls (fst (connect_try w s)) = exit_calls s"
  "initialConnection (fst (connect_try w s)) = initialConnection s"
  "isConnecting (fst (connect_try w s)) = isConnecting s"
  "sent_to (fst (connect_try w s)) = sent_to s"
  "scheduled (fst (connect_try w s)) = scheduled s"
  by (simp_all add: connect_try_def effect_defs subscribe_def exit_calls_def sent_to_def
        scheduled_def Let_def)

lemma connect_try_succeeds:
  assumes "connects_succeed w"
  shows "snd (connect_try w s) = False" and "sock (fst (connect_try w s)) \<noteq> None"
  using assms by (simp_all add: connects_succeed_def connect_try_def effect_defs Let_def subscribe_def)

lemma connect_obs:
  assumes "connects_succeed w"
  shows "retryCount (fst (connectToWhatsApp w s)) = retryCount s"
    and "exit_calls (fst (connectToWhatsApp w s)) = exit_calls s"
    and "sock s \<noteq> None \<or> \<not> isConnecting s \<Longrightarrow> sock (fst (connectToWhatsApp w s)) \<noteq> None"
    and "isConnecting (fst (connectToWhatsApp w s))"
    and "scheduled (fst (connectToWhatsApp w s)) = scheduled s"
proof -
  obtain s1 where s1: "connect_try w (s\<lparr>isConnecting := True\<rparr>) = (s1, False)"
    using connect_try_succeeds(1) [OF assms, of "s\<lparr>isConnecting := True\<rparr>"]
    by (cases "connect_try w (s\<lparr>isConnecting := True\<rparr>)") auto
  have obs: "retryCount s1 = retryCount s" "exit_calls s1 = exit_calls s" "isConnecting s1"
       "sock s1 \<noteq> None" "scheduled s1 = scheduled s"
    using connect_try_obs(1,3,5,7) [of w "s\<lparr>isConnecting := True\<rparr>"]
          connect_try_succeeds(2) [OF assms, of "s\<lparr>isConnecting := True\<rparr>"] s1
    by (simp_all add: exit_calls_def scheduled_def)
  show "retryCount (fst (connectToWhatsApp w s)) = retryCount s"
    and "exit_calls (fst (connectToWhatsApp w s)) = exit_calls s"
    and "sock s \<noteq> None \<or> \<not> isConnecting s \<Longrightarrow> sock (fst (connectToWhatsApp w s)) \<noteq> None"
    and "isConnecting (fst (connectToWhatsApp w s))"
    and "scheduled (fst (connectToWhatsApp w s)) = scheduled s"
    using s1 obs by (auto simp add: connectToWhatsApp_def)
qed

lemma on_close_transient_obs:
  assumes "statusCode \<noteq> Some (loggedOut w)"
  shows "retryCount (on_close w statusCode s) = (if retryCount s < 5 then retryCount s + 1 else retryCount s)"
    and "timers (on_close w statusCode s) = (if retryCount s < 5 then timers s + 1 else timers s)"
    and "exit_calls (on_close w statusCode s) =
           (if retryCount s < 5 then exit_calls s else exit_calls s @ [Exit 1])"
    and "sock (on_close w statusCode s) = sock s"
    and "isConnecting (on_close w statusCode s) = False"
    and "scheduled (on_close w statusCode s) =
           (if retryCount s < 5 then scheduled s @ [SetTimeout 5000] else scheduled s)"
  using assms
  by (simp_all add: on_close_def MAX_RETRIES_def effect_defs exit_calls_def scheduled_def Let_def)

lemma sendStartupMessage_obs:
  "retryCount (fst (sendStartupMessage w sk j s)) = retryCount s"
  "isConnecting (fst (sendStartupMessage w sk j s)) = isConnecting s"
  "initialConnection (fst (sendStartupMessage w sk j s)) = initialConnection s"
  "sock (fst (sendStartupMessage w sk j s)) = sock s"
  by (simp_all add: sendStartupMessage_def effect_defs Let_def)

lemma notify_owners_obs:
  "retryCount (fst (notify_owners w js s)) = retryCount s"
  "isConnecting (fst (notify_owners w js s)) = isConnecting s"
  "initialConnection (fst (notify_owners w js s)) = initialConnection s"
  "sock (fst (notify_owners w js s)) = sock s"
  by (induction js arbitrary: s;
      simp add: sendStartupMessage_obs split_beta Let_def)+

lemma unhandledRejection_obs:
  "retryCount (unhandledRejection w s) = retryCount s"
  "isConnecting (unhandledRejection w s) = isConnecting s"
  "initialConnection (unhandledRejection w s) = initialConnection s"
  "sock (unhandledRejection w s) = sock s"
  "sent_to (unhandledRejection w s) = sent_to s"
  by (simp_all add: unhandledRejection_def effect_defs sent_to_def Let_def)

lemma on_open_obs:
  "retryCount (fst (on_open w s)) = 0"
  "isConnecting (fst (on_open w s)) = False"
  "initialConnection (fst (on_open w s)) = False"
  "sock (fst (on_open w s)) = sock s"
  by (simp_all add: on_open_def notify_owners_obs Let_def)
     (simp_all add: effect_defs)

lemma open_update_obs:
  "retryCount (connection_update w (Some ''open'') statusCode s) = 0"
  "isConnecting (connection_update w (Some ''open'') statusCode s) = False"
  "initialConnection (connection_update w (Some ''open'') statusCode s) = False"
  "sock (connection_update w (Some ''open'') statusCode s) = sock s"
  by (simp_all add: connection_update_def split_beta Let_def unhandledRejection_obs on_open_obs)

lemma run_terminated: "terminated s \<Longrightarrow> run w evs s = s"
  by (cases evs) simp_all

lemma step_between_opens:
  assumes "connects_succeed w \<or> e \<noteq> TimerFires" "no_open_no_logout w e" "sock s \<noteq> None"
  shows "sock (step w e s) \<noteq> None"
    and "retryCount (step w e s) =
           (if is_transient_close w e \<and> retryCount s < 5 then retryCount s + 1 else retryCount s)"
    and "exit_calls (step w e s) =
           (if is_transient_close w e \<and> \<not> retryCount s < 5 then exit_calls s @ [Exit 1]
            else exit_calls s)"
    and "scheduled (step w e s) =
           (if is_transient_close w e \<and> retryCount s < 5 then scheduled s @ [SetTimeout 5000]
            else scheduled s)"
    and "e \<noteq> TimerFires \<Longrightarrow> timers (step w e s) =
           (if is_transient_close w e \<and> retryCount s < 5 then timers s + 1 else timers s)"
proof -
  show "e \<noteq> TimerFires \<Longrightarrow> timers (step w e s) =
           (if is_transient_close w e \<and> retryCount s < 5 then timers s + 1 else timers s)"
  proof (cases e)
    case (ConnectionUpdate c st)
    then show ?thesis
      using assms on_close_transient_obs(2) [of st w s] by (auto simp add: connection_update_def)
  next
    case TimerFires
    assume "e \<noteq> TimerFires"
    then show ?thesis
      using TimerFires by simp
  qed
  show "sock (step w e s) \<noteq> None"
  proof (cases e)
    case (ConnectionUpdate c st)
    then show ?thesis
      using assms on_close_transient_obs(4) [of st w s] by (auto simp add: connection_update_def)
  next
    case TimerFires
    then show ?thesis
      using assms connect_obs(3) [of w "s\<lparr>timers := timers s - 1\<rparr>"] by auto
  qed
  show "retryCount (step w e s) =
           (if is_transient_close w e \<and> retryCount s < 5 then retryCount s + 1 else retryCount s)"
  proof (cases e)
    case (ConnectionUpdate c st)
    then show ?thesis
      using assms on_close_transient_obs(1) [of st w s] by (auto simp add: connection_update_def)
  next
    case TimerFires
    then show ?thesis
      using assms connect_obs(1) [of w "s\<lparr>timers := timers s - 1\<rparr>"] by auto
  qed
  show "exit_calls (step w e s) =
           (if is_transient_close w e \<and> \<not> retryCount s < 5 then exit_calls s @ [Exit 1]
            else exit_calls s)"
  proof (cases e)
    case (ConnectionUpdate c st)
    then show ?thesis
      using assms on_close_transient_obs(3) [of st w s] by (auto simp add: connection_update_def)
  next
    case TimerFires
    then show ?thesis
      using assms connect_obs(2) [of w "s\<lparr>timers := timers s - 1\<rparr>"]
      by (auto simp add: exit_calls_def)
  qed
  show "scheduled (step w e s) =
           (if is_transient_close w e \<and> retryCount s < 5 then scheduled s @ [SetTimeout 5000]
            else scheduled s)"
  proof (cases e)
    case (ConnectionUpdate c st)
    then show ?thesis
      using assms on_close_transient_obs(6) [of st w s] by (auto simp add: connection_update_def)
  next
    case TimerFires
    then show ?thesis
      using assms connect_obs(5) [of w "s\<lparr>timers := timers s - 1\<rparr>"]
      by (auto simp add: scheduled_def)
  qed
qed

lemma run_closes:
  "connects_succeed w \<or> TimerFires \<notin> set evs \<Longrightarrow>
   list_all (no_open_no_logout w) evs \<Longrightarrow> sock s \<noteq> None \<Longrightarrow> exit_calls s = [] \<Longrightarrow>
   retryCount s \<le> 5 \<Longrightarrow>
     (retryCount s + length (filter (is_transient_close w) evs) \<le> 5 \<longrightarrow>
        exit_calls (run w evs s) = []
        \<and> retryCount (run w evs s) = retryCount s + length (filter (is_transient_close w) evs)
        \<and> scheduled (run w evs s)
            = scheduled s @ replicate (length (filter (is_transient_close w) evs)) (SetTimeout 5000))
     \<and> (6 \<le> retryCount s + length (filter (is_transient_close w) evs) \<longrightarrow>
        exit_calls (run w evs s) = [Exit 1]
        \<and> retryCount (run w evs s) = 5
        \<and> scheduled (run w evs s) = scheduled s @ replicate (5 - retryCount s) (SetTimeout 5000))"
proof (induction evs arbitrary: s)
  case Nil
  then show ?case by simp
next
  case (Cons e es)
  have w: "connects_succeed w \<or> e \<noteq> TimerFires"
    and ws: "connects_succeed w \<or> TimerFires \<notin> set es"
    using Cons.prems(1) by auto
  have e: "no_open_no_logout w e" and es: "list_all (no_open_no_logout w) es"
    using Cons.prems(2) by simp_all
  have nt: "\<not> terminated s"
    using Cons.prems(4) by (simp add: terminated_def)
  note st = step_between_opens [OF w e Cons.prems(3)]
  show ?case
  proof (cases "is_transient_close w e")
    case False
    then have ex: "exit_calls (step w e s) = []"
      and rc: "retryCount (step w e s) = retryCount s"
      and sc: "scheduled (step w e s) = scheduled s"
      using st(2-4) Cons.prems(4) by simp_all
    have r: "run w (e # es) s = run w es (step w e s)"
      using nt by simp
    show ?thesis
      using Cons.IH [OF ws es st(1) ex] False Cons.prems(5) unfolding r rc sc
      by simp
  next
    case True
    show ?thesis
    proof (cases "retryCount s < 5")
      case False
      then have five: "retryCount s = 5"
        using Cons.prems(5) by simp
      have ex: "exit_calls (step w e s) = [Exit 1]"
        and rc: "retryCount (step w e s) = 5"
        and sc: "scheduled (step w e s) = scheduled s"
        using st(2-4) True five Cons.prems(4) by simp_all
      have "terminated (step w e s)"
        using ex by (simp add: terminated_def)
      then have "run w (e # es) s = step w e s"
        using nt by (simp add: run_terminated)
      then show ?thesis
        using True ex rc sc five by simp
    next
      case less: True
      have ex: "exit_calls (step w e s) = []"
        and rc: "retryCount (step w e s) = Suc (retryCount s)"
        and sc: "scheduled (step w e s) = scheduled s @ [SetTimeout 5000]"
        using st(2-4) True less Cons.prems(4) by simp_all
      have le: "Suc (retryCount s) \<le> 5"
        using less by simp
      have d: "5 - retryCount s = Suc (5 - Suc (retryCount s))"
        using less by simp
      have r: "run w (e # es) s = run w es (step w e s)"
        using nt by simp
      show ?thesis
        using Cons.IH [OF ws es st(1) ex] le True unfolding r rc sc d
        by simp
    qed
  qed
qed

lemma run_closes_timers:
  "TimerFires \<notin> set evs \<Longrightarrow>
   list_all (no_open_no_logout w) evs \<Longrightarrow> sock s \<noteq> None \<Longrightarrow> exit_calls s = [] \<Longrightarrow>
   retryCount s \<le> 5 \<Longrightarrow>
   timers (run w evs s)
     = timers s + min (length (filter (is_transient_close w) evs)) (5 - retryCount s)"
proof (induction evs arbitrary: s)
  case Nil
  then show ?case by simp
next
  case (Cons e es)
  have ne: "e \<noteq> TimerFires" and nes: "TimerFires \<notin> set es"
    using Cons.prems(1) by auto
  have w: "connects_succeed w \<or> e \<noteq> TimerFires"
    using ne by simp
  have e: "no_open_no_logout w e" and es: "list_all (no_open_no_logout w) es"
    using Cons.prems(2) by simp_all
  have nt: "\<not> terminated s"
    using Cons.prems(4) by (simp add: terminated_def)
  note st = step_between_opens [OF w e Cons.prems(3)]
  show ?case
  proof (cases "is_transient_close w e \<and> \<not> retryCount s < 5")
    case True
    then have "terminated (step w e s)"
      using st(3) by (simp add: terminated_def)
    then have "run w (e # es) s = step w e s"
      using nt by (simp add: run_terminated)
    then show ?thesis
      using True st(5) [OF ne] by simp
  next
    case False
    then have ex: "exit_calls (step w e s) = []"
      using st(3) Cons.prems(4) by simp
    have rc: "retryCount (step w e s) \<le> 5"
      using st(2) Cons.prems(5) by (simp split: if_splits)
    have r: "run w (e # es) s = run w es (step w e s)"
      using nt by simp
    show ?thesis
      using Cons.IH [OF nes es st(1) ex rc] False st(2) st(5) [OF ne] unfolding r
      by (auto split: if_splits)
  qed
qed











lemma route_message_handled: "handled_msgs (route_message w m s) = handled_msgs s @ [m]"
  by (simp add: route_message_def effect_defs handled_msgs_def Let_def)

lemma route_messages_handled: "handled_msgs (route_messages w ms s) = handled_msgs s @ ms"
  by (induction ms arbitrary: s) (simp_all add: route_message_handled)

section \<open>Properties\<close>

text \<open>
  C1, as stated, fails: after five closes that are not logouts, with the reconnects between
  them and no open, the process has not exited; the retry count is 5, five timers have been
  set and the fifth reconnect is pending.
\<close>

theorem fifth_close_does_not_terminate:
  "\<not> terminated (run quiet_world five_closes connecting)
   \<and> exit_calls (run quiet_world five_closes connecting) = []
   \<and> retryCount (run quiet_world five_closes connecting) = 5
   \<and> length (scheduled (run quiet_world five_closes connecting)) = 5
   \<and> timers (run quiet_world five_closes connecting) = 1"
  by (simp add: five_closes_def transient_close_def connecting_update_def connecting_eq
        terminated_def exit_calls_def scheduled_def connection_update_def on_close_def
        MAX_RETRIES_def effect_defs quiet_world_def connectToWhatsApp_def connect_try_def
        subscribe_def Let_def)

text \<open>
  C1, amended. Take a state with a socket, a retry count of 0 and no exit so far, and any
  sequence of events that holds no open and no logout: closes that are not logouts, other
  connection updates, and timer firings (if any, in a world in which connecting does not
  throw). While the sequence holds at most five such closes, the process has not exited,
  the retry count is the number of closes and each close has set one timer of 5000 ms. Once
  it holds six or more, \<^verbatim>\<open>process.exit(1)\<close> has been called exactly once, the count is 5
  and five timers have been set: the exit happens on the sixth close. When no timer fires
  in the sequence, the timers set are all pending at its end.
\<close>

theorem sixth_close_terminates:
  assumes "connects_succeed w \<or> TimerFires \<notin> set evs"
    and "list_all (no_open_no_logout w) evs"
    and "sock s \<noteq> None" and "retryCount s = 0" and "\<not> terminated s"
  shows "(length (filter (is_transient_close w) evs) \<le> 5 \<longrightarrow>
            \<not> terminated (run w evs s)
            \<and> retryCount (run w evs s) = length (filter (is_transient_close w) evs)
            \<and> scheduled (run w evs s)
                = scheduled s
                  @ replicate (length (filter (is_transient_close w) evs)) (SetTimeout 5000))
         \<and> (6 \<le> length (filter (is_transient_close w) evs) \<longrightarrow>
            exit_calls (run w evs s) = [Exit 1]
            \<and> retryCount (run w evs s) = 5
            \<and> scheduled (run w evs s) = scheduled s @ replicate 5 (SetTimeout 5000))
         \<and> (TimerFires \<notin> set evs \<longrightarrow>
            timers (run w evs s)
              = timers s + min (length (filter (is_transient_close w) evs)) 5)"
proof -
  have e: "exit_calls s = []"
    using assms(5) by (simp add: terminated_def)
  then have "TimerFires \<notin> set evs \<longrightarrow>
            timers (run w evs s)
              = timers s + min (length (filter (is_transient_close w) evs)) 5"
    using run_closes_timers [OF _ assms(2) assms(3), of ] assms(4) by simp
  then show ?thesis
    using run_closes [OF assms(1) assms(2) assms(3)] assms(4) e
    by (simp add: terminated_def)
qed

theorem sixth_close_terminates_witness:
  "(connects_succeed quiet_world \<or> TimerFires \<notin> set six_closes)
   \<and> list_all (no_open_no_logout quiet_world) six_closes
   \<and> sock connecting \<noteq> None \<and> retryCount connecting = 0 \<and> \<not> terminated connecting
   \<and> length (filter (is_transient_close quiet_world) six_closes) = 6
   \<and> exit_calls (run quiet_world six_closes connecting) = [Exit 1]
   \<and> retryCount (run quiet_world six_closes connecting) = 5
   \<and> scheduled (run quiet_world six_closes connecting)
       = [SetTimeout 5000, SetTimeout 5000, SetTimeout 5000, SetTimeout 5000, SetTimeout 5000]
   \<and> TimerFires \<notin> set closes_in_a_row
   \<and> list_all (no_open_no_logout faulty_world) closes_in_a_row
   \<and> exit_calls (run faulty_world closes_in_a_row connecting) = [Exit 1]
   \<and> timers (run faulty_world closes_in_a_row connecting) = 5"
proof -
  have c: "connects_succeed quiet_world \<or> TimerFires \<notin> set six_closes"
    using quiet_connects by simp
  have d: "connects_succeed faulty_world \<or> TimerFires \<notin> set closes_in_a_row"
    using closes_in_a_row_ok(1) by simp
  have t: "timers connecting = 0"
    by (simp add: connecting_eq)
  have r: "replicate 5 (SetTimeout 5000)
             = [SetTimeout 5000, SetTimeout 5000, SetTimeout 5000, SetTimeout 5000, SetTimeout 5000]"
    by (simp add: numeral_eq_Suc)
  show ?thesis
    using sixth_close_terminates [OF c six_closes_ok(1) connecting_obs(1-3)]
          sixth_close_terminates [OF d closes_in_a_row_ok(2) connecting_obs(1-3)]
          c six_closes_ok closes_in_a_row_ok connecting_obs r t
    by simp
qed

text \<open>
  C2, as stated, fails: when \<^verbatim>\<open>handleMessage\<close> throws for a message,
  \<^verbatim>\<open>handleEvent\<close> is not called for it; and when \<^verbatim>\<open>handleGroupParticipantsUpdate\<close>
  throws, the listener ends there, with nothing caught or logged.
\<close>

theorem sibling_handler_is_skipped:
  "throws faulty_world (trace opened) (HandleMessage (sock opened) ''m1'')
   \<and> HandleEvent ''message'' (sock opened) [Msg ''m1'']
       \<notin> set (trace (messages_upsert faulty_world [''m1''] ''notify'' opened))
   \<and> throws faulty_world (trace opened) (HandleGroupParticipantsUpdate (sock opened) joined)
   \<and> group_participants_update faulty_world joined opened
       = (emit (HandleGroupParticipantsUpdate (sock opened) joined) opened, True)"
  by (simp add: messages_upsert_def route_message_def group_participants_update_def
        effect_defs faulty_world_def opened_eq)

text \<open>
  C2, amended. In a \<^verbatim>\<open>notify\<close> batch every message reaches
  \<^verbatim>\<open>handleMessage\<close>, in order, whatever throws. When \<^verbatim>\<open>handleMessage\<close> throws
  for a message, the error is logged, \<^verbatim>\<open>handleEvent\<close> is skipped for that message, and
  the rest of the batch is routed from there.
\<close>

theorem message_handler_failure_is_isolated_per_message:
  "handled_msgs (messages_upsert w messages ''notify'' s) = handled_msgs s @ messages
   \<and> (throws w (trace s) (HandleMessage (sock s) m) \<longrightarrow>
        messages_upsert w (m # ms) ''notify'' s
          = messages_upsert w ms ''notify''
              (emit (Log_error ''Message handling failed:'') (emit (HandleMessage (sock s) m) s)))"
  by (simp add: messages_upsert_def route_messages_handled route_message_def call_def)

theorem message_handler_failure_is_isolated_per_message_witness:
  "throws faulty_world (trace opened) (HandleMessage (sock opened) ''m1'')
   \<and> trace (messages_upsert faulty_world [''m1'', ''m2''] ''notify'' opened)
       = trace opened @ [HandleMessage (Some 0) ''m1'', Log_error ''Message handling failed:'',
                         HandleMessage (Some 0) ''m2'', Log_error ''Message handling failed:'']"
proof -
  have h: "throws faulty_world (trace opened) (HandleMessage (sock opened) ''m1'')"
    by (simp add: faulty_world_def)
  show ?thesis
    using message_handler_failure_is_isolated_per_message
            [of faulty_world "[]" opened "''m1''" "[''m2'']"] h
    by (simp add: messages_upsert_def route_message_def effect_defs faulty_world_def opened_eq)
qed

text \<open>
  C3. On a close that is not a logout, and when the \<^verbatim>\<open>try\<close> block of
  \<^verbatim>\<open>connectToWhatsApp\<close> throws, the retry is taken exactly when the retry count is
  below 5: then the count goes up by one, one timer is set and \<^verbatim>\<open>process.exit\<close> is not
  called. With a count of 5 or more no timer is set, the count stays and
  \<^verbatim>\<open>process.exit(1)\<close> is called, on both paths.
\<close>

theorem retry_iff_below_five:
  "(statusCode \<noteq> Some (loggedOut w) \<longrightarrow>
      (let s' = connection_update w (Some ''close'') statusCode s in
       if retryCount s < 5
       then retryCount s' = retryCount s + 1 \<and> timers s' = timers s + 1
            \<and> exit_calls s' = exit_calls s
       else retryCount s' = retryCount s \<and> timers s' = timers s
            \<and> exit_calls s' = exit_calls s @ [Exit 1]))
   \<and> (\<not> isConnecting s \<and> snd (connect_try w (s\<lparr>isConnecting := True\<rparr>)) \<longrightarrow>
      (let s' = fst (connectToWhatsApp w s) in
       if retryCount s < 5
       then retryCount s' = retryCount s + 1 \<and> timers s' = timers s + 1
            \<and> exit_calls s' = exit_calls s
       else retryCount s' = retryCount s \<and> timers s' = timers s
            \<and> exit_calls s' = exit_calls s @ [Exit 1]))"
proof (intro conjI impI)
  assume "statusCode \<noteq> Some (loggedOut w)"
  then show "let s' = connection_update w (Some ''close'') statusCode s in
       if retryCount s < 5
       then retryCount s' = retryCount s + 1 \<and> timers s' = timers s + 1
            \<and> exit_calls s' = exit_calls s
       else retryCount s' = retryCount s \<and> timers s' = timers s
            \<and> exit_calls s' = exit_calls s @ [Exit 1]"
    by (simp add: connection_update_def on_close_def MAX_RETRIES_def effect_defs exit_calls_def)
next
  assume a: "\<not> isConnecting s \<and> snd (connect_try w (s\<lparr>isConnecting := True\<rparr>))"
  obtain s1 where s1: "connect_try w (s\<lparr>isConnecting := True\<rparr>) = (s1, True)"
    using a by (cases "connect_try w (s\<lparr>isConnecting := True\<rparr>)") auto
  have obs: "retryCount s1 = retryCount s" "timers s1 = timers s" "exit_calls s1 = exit_calls s"
    using connect_try_obs(1-3) [of w "s\<lparr>isConnecting := True\<rparr>"] s1
    by (simp_all add: exit_calls_def)
  have "fst (connectToWhatsApp w s) = connect_catch s1"
    using a s1 by (simp add: connectToWhatsApp_def)
  then show "let s' = fst (connectToWhatsApp w s) in
       if retryCount s < 5
       then retryCount s' = retryCount s + 1 \<and> timers s' = timers s + 1
            \<and> exit_calls s' = exit_calls s
       else retryCount s' = retryCount s \<and> timers s' = timers s
            \<and> exit_calls s' = exit_calls s @ [Exit 1]"
    by (simp add: connect_catch_obs obs)
qed

theorem retry_iff_below_five_witness:
  "Some 428 \<noteq> Some (loggedOut faulty_world)
   \<and> \<not> isConnecting init
   \<and> snd (connect_try faulty_world (init\<lparr>isConnecting := True\<rparr>))
   \<and> retryCount (connection_update faulty_world (Some ''close'') (Some 428) init) = 1
   \<and> timers (fst (connectToWhatsApp faulty_world init)) = 1
   \<and> exit_calls (connection_update faulty_world (Some ''close'') (Some 428)
                    (init\<lparr>retryCount := 5\<rparr>)) = [Exit 1]
   \<and> exit_calls (fst (connectToWhatsApp faulty_world (init\<lparr>retryCount := 5\<rparr>))) = [Exit 1]"
proof -
  have h: "Some 428 \<noteq> Some (loggedOut faulty_world)"
    by (simp add: faulty_world_def quiet_world_def)
  have t: "snd (connect_try faulty_world (init\<lparr>isConnecting := True\<rparr>))"
          "snd (connect_try faulty_world (init\<lparr>retryCount := 5, isConnecting := True\<rparr>))"
    by (simp_all add: connect_try_def effect_defs faulty_world_def quiet_world_def init_def)
  have e: "exit_calls init = []" "exit_calls (init\<lparr>retryCount := 5\<rparr>) = []"
    by (simp_all add: exit_calls_def init_def)
  show ?thesis
    using retry_iff_below_five [of "Some 428" faulty_world init]
          retry_iff_below_five [of "Some 428" faulty_world "init\<lparr>retryCount := 5\<rparr>"] h t e
    by (simp add: Let_def) (simp add: init_def)
qed

text \<open>
  C4. A call of \<^verbatim>\<open>connectToWhatsApp\<close> while \<^verbatim>\<open>isConnecting\<close> is set returns
  \<^verbatim>\<open>null\<close> and leaves the whole state as it was, trace included: no socket is built
  and no listener is subscribed.
\<close>

theorem connect_while_connecting_is_noop:
  "isConnecting s \<Longrightarrow> connectToWhatsApp w s = (s, None)"
  by (simp add: connectToWhatsApp_def)

theorem connect_while_connecting_is_noop_witness:
  "isConnecting connecting \<and> connectToWhatsApp faulty_world connecting = (connecting, None)"
  using connect_while_connecting_is_noop [of connecting faulty_world]
  by (simp add: connecting_eq)

text \<open>
  C5. A close whose status code is \<^verbatim>\<open>DisconnectReason.loggedOut\<close> logs the termination
  and calls \<^verbatim>\<open>process.exit(1)\<close> and does nothing else, whatever the retry count: no
  timer is set and the count is not changed.
\<close>

theorem logged_out_close_terminates:
  "trace (connection_update w (Some ''close'') (Some (loggedOut w)) s)
     = trace s @ [Log_error ''Connection terminated'', Exit 1]
   \<and> timers (connection_update w (Some ''close'') (Some (loggedOut w)) s) = timers s
   \<and> retryCount (connection_update w (Some ''close'') (Some (loggedOut w)) s) = retryCount s
   \<and> terminated (connection_update w (Some ''close'') (Some (loggedOut w)) s)"
  by (simp add: connection_update_def on_close_def effect_defs terminated_def exit_calls_def)

text \<open>
  C6. Every open sets the retry count to 0 and clears \<^verbatim>\<open>isConnecting\<close>. From a state
  with a socket and a count of 0, in a world where connecting does not throw: after a close
  that is not a logout the count is 1 and \<^verbatim>\<open>isConnecting\<close> is clear, after the timer
  has fired the count is still 1 and \<^verbatim>\<open>isConnecting\<close> is set, and after the open the
  count is 0.
\<close>

theorem open_resets_retry_counter:
  "retryCount (connection_update w (Some ''open'') statusCode s) = 0
   \<and> \<not> isConnecting (connection_update w (Some ''open'') statusCode s)
   \<and> (sock s \<noteq> None \<and> retryCount s = 0 \<and> st \<noteq> Some (loggedOut w) \<and> connects_succeed w \<longrightarrow>
        (let s1 = step w (ConnectionUpdate (Some ''close'') st) s;
             s2 = step w TimerFires s1;
             s3 = step w (ConnectionUpdate (Some ''open'') statusCode) s2 in
         retryCount s1 = 1 \<and> \<not> isConnecting s1
         \<and> retryCount s2 = 1 \<and> isConnecting s2
         \<and> retryCount s3 = 0 \<and> \<not> isConnecting s3 \<and> sock s3 \<noteq> None))"
proof (intro conjI impI)
  show "retryCount (connection_update w (Some ''open'') statusCode s) = 0"
    by (simp add: open_update_obs)
  show "\<not> isConnecting (connection_update w (Some ''open'') statusCode s)"
    by (simp add: open_update_obs)
next
  assume a: "sock s \<noteq> None \<and> retryCount s = 0 \<and> st \<noteq> Some (loggedOut w) \<and> connects_succeed w"
  define s1 where "s1 = step w (ConnectionUpdate (Some ''close'') st) s"
  define s2 where "s2 = step w TimerFires s1"
  define s3 where "s3 = step w (ConnectionUpdate (Some ''open'') statusCode) s2"
  have s1_eq: "s1 = on_close w st s"
    using a by (auto simp add: s1_def connection_update_def)
  have c1: "retryCount s1 = 1" "\<not> isConnecting s1" "timers s1 = timers s + 1" "sock s1 \<noteq> None"
    using a on_close_transient_obs [of st w s] by (simp_all add: s1_eq)
  have s2_eq: "s2 = fst (connectToWhatsApp w (s1\<lparr>timers := timers s1 - 1\<rparr>))"
    using c1 by (simp add: s2_def)
  have c2: "retryCount s2 = 1" "isConnecting s2" "sock s2 \<noteq> None"
    using a c1 connect_obs(1,3,4) [of w "s1\<lparr>timers := timers s1 - 1\<rparr>"]
    by (simp_all add: s2_eq)
  have s3_eq: "s3 = connection_update w (Some ''open'') statusCode s2"
    using c2 by (auto simp add: s3_def)
  have c3: "retryCount s3 = 0" "\<not> isConnecting s3" "sock s3 \<noteq> None"
    using c2 by (simp_all add: s3_eq open_update_obs)
  show "let s1 = step w (ConnectionUpdate (Some ''close'') st) s;
             s2 = step w TimerFires s1;
             s3 = step w (ConnectionUpdate (Some ''open'') statusCode) s2 in
         retryCount s1 = 1 \<and> \<not> isConnecting s1
         \<and> retryCount s2 = 1 \<and> isConnecting s2
         \<and> retryCount s3 = 0 \<and> \<not> isConnecting s3 \<and> sock s3 \<noteq> None"
    using c1 c2 c3 unfolding Let_def s1_def s2_def s3_def by simp
qed

theorem open_resets_retry_counter_witness:
  "sock opened \<noteq> None \<and> retryCount opened = 0 \<and> Some 428 \<noteq> Some (loggedOut quiet_world)
   \<and> connects_succeed quiet_world
   \<and> retryCount (step quiet_world (ConnectionUpdate (Some ''close'') (Some 428)) opened) = 1
   \<and> retryCount (step quiet_world TimerFires
         (step quiet_world (ConnectionUpdate (Some ''close'') (Some 428)) opened)) = 1
   \<and> retryCount (step quiet_world (ConnectionUpdate (Some ''open'') None)
         (step quiet_world TimerFires
            (step quiet_world (ConnectionUpdate (Some ''close'') (Some 428)) opened))) = 0"
proof -
  have h: "sock opened \<noteq> None" "retryCount opened = 0"
          "Some 428 \<noteq> Some (loggedOut quiet_world)"
    by (simp_all add: opened_eq quiet_world_def)
  show ?thesis
    using open_resets_retry_counter [of quiet_world None opened "Some 428"] h quiet_connects
    by (simp add: Let_def)
qed




text \<open>
  C8, as stated, fails: with a blob that decodes and parses, a write of
  \<^verbatim>\<open>creds.json\<close> that throws makes \<^verbatim>\<open>processSessionData\<close> return \<^verbatim>\<open>false\<close>,
  after the directory has been emptied.
\<close>

theorem valid_blob_with_failing_write:
  "Option.bind (base64_decode disk_full_world ''e30='') (JSON_parse disk_full_world) = Some ''{}''
   \<and> snd (processSessionData disk_full_world (Some ''e30='') with_creds) = False
   \<and> files (fst (processSessionData disk_full_world (Some ''e30='') with_creds)) = Map.empty
   \<and> files with_creds ''creds.json'' = Some ''old''"
  by (simp add: processSessionData_def processSessionData_try_def effect_defs
        disk_full_world_def quiet_world_def with_creds_def init_def)

text \<open>
  C8, amended. For a supplied \<^verbatim>\<open>SESSION_DATA\<close>: when decoding or parsing fails,
  \<^verbatim>\<open>processSessionData\<close> returns \<^verbatim>\<open>false\<close>, the failure is logged and the session
  directory is as it was (no file-system call is made). When the blob decodes and parses
  and the two file-system calls succeed, the directory is emptied first and
  \<^verbatim>\<open>creds.json\<close> is written next: the directory then holds that file only, and the
  result is \<^verbatim>\<open>true\<close>. When one of the two file-system calls throws, the result is
  \<^verbatim>\<open>false\<close>.
\<close>

theorem session_data_bootstrap:
  "(Option.bind (base64_decode w blob) (JSON_parse w) = None \<longrightarrow>
      processSessionData w (Some blob) s
        = (if blob = [] then s else emit (Log_error ''Session data processing failed:'') s, False))
   \<and> (blob \<noteq> [] \<and> Option.bind (base64_decode w blob) (JSON_parse w) = Some sessionData
       \<and> \<not> throws w (trace s) EmptyDir
       \<and> \<not> throws w (trace s @ [EmptyDir]) (WriteJSON ''creds.json'' sessionData) \<longrightarrow>
      processSessionData w (Some blob) s
        = (s\<lparr>files := [''creds.json'' \<mapsto> sessionData],
              trace := trace s @ [EmptyDir, WriteJSON ''creds.json'' sessionData]\<rparr>, True))
   \<and> (Option.bind (base64_decode w blob) (JSON_parse w) = Some sessionData
       \<and> (throws w (trace s) EmptyDir
            \<or> throws w (trace s @ [EmptyDir]) (WriteJSON ''creds.json'' sessionData)) \<longrightarrow>
      snd (processSessionData w (Some blob) s) = False)"
  by (auto simp add: processSessionData_def processSessionData_try_def effect_defs
        split: option.splits Option.bind_splits)

theorem session_data_bootstrap_witness:
  "Option.bind (base64_decode quiet_world ''bm90IGpzb24='') (JSON_parse quiet_world) = None
   \<and> snd (processSessionData quiet_world (Some ''bm90IGpzb24='') with_creds) = False
   \<and> files (fst (processSessionData quiet_world (Some ''bm90IGpzb24='') with_creds))
       = files with_creds
   \<and> ''e30='' \<noteq> []
   \<and> Option.bind (base64_decode quiet_world ''e30='') (JSON_parse quiet_world) = Some ''{}''
   \<and> \<not> throws quiet_world (trace with_creds) EmptyDir
   \<and> \<not> throws quiet_world (trace with_creds @ [EmptyDir]) (WriteJSON ''creds.json'' ''{}'')
   \<and> snd (processSessionData quiet_world (Some ''e30='') with_creds) = True
   \<and> files (fst (processSessionData quiet_world (Some ''e30='') with_creds))
       = [''creds.json'' \<mapsto> ''{}'']
   \<and> Option.bind (base64_decode disk_full_world ''e30='') (JSON_parse disk_full_world)
       = Some ''{}''
   \<and> throws disk_full_world (trace with_creds @ [EmptyDir]) (WriteJSON ''creds.json'' ''{}'')
   \<and> snd (processSessionData disk_full_world (Some ''e30='') with_creds) = False"
proof -
  have h: "Option.bind (base64_decode quiet_world ''bm90IGpzb24='') (JSON_parse quiet_world) = None"
    "Option.bind (base64_decode quiet_world ''e30='') (JSON_parse quiet_world) = Some ''{}''"
    "\<not> throws quiet_world (trace with_creds) EmptyDir"
    "\<not> throws quiet_world (trace with_creds @ [EmptyDir]) (WriteJSON ''creds.json'' ''{}'')"
    "Option.bind (base64_decode disk_full_world ''e30='') (JSON_parse disk_full_world) = Some ''{}''"
    "throws disk_full_world (trace with_creds @ [EmptyDir]) (WriteJSON ''creds.json'' ''{}'')"
    by (simp_all add: quiet_world_def disk_full_world_def)
  show ?thesis
    using session_data_bootstrap
            [where w = quiet_world and blob = "''bm90IGpzb24=''" and s = with_creds]
          session_data_bootstrap
            [where w = quiet_world and blob = "''e30=''" and sessionData = "''{}''"
               and s = with_creds]
          session_data_bootstrap
            [where w = disk_full_world and blob = "''e30=''" and sessionData = "''{}''"
               and s = with_creds] h
    by (simp add: emit_def)
qed

text \<open>
  C9. A \<^verbatim>\<open>messages.upsert\<close> batch whose type is not \<^verbatim>\<open>notify\<close> leaves the state as
  it was: no handler is called for any of its messages and nothing is logged.
\<close>

theorem non_notify_batch_is_dropped:
  "type \<noteq> ''notify'' \<Longrightarrow> messages_upsert w messages type s = s"
  by (simp add: messages_upsert_def)

theorem non_notify_batch_is_dropped_witness:
  "''append'' \<noteq> ''notify''
   \<and> messages_upsert quiet_world [''m1'', ''m2''] ''append'' opened = opened"
  using non_notify_batch_is_dropped [of "''append''" quiet_world "[''m1'', ''m2'']" opened]
  by simp

text \<open>
  C10, as stated, fails: when \<^verbatim>\<open>handleGroupParticipantsUpdate\<close> throws, the listener
  ends there and \<^verbatim>\<open>handleEvent\<close> is not called at all, here for an update with no
  participant.
\<close>

theorem throwing_group_handler_skips_member_join:
  "participants nobody = []
   \<and> throws faulty_world (trace opened) (HandleGroupParticipantsUpdate (sock opened) nobody)
   \<and> trace (fst (group_participants_update faulty_world nobody opened))
       = trace opened @ [HandleGroupParticipantsUpdate (Some 0) nobody]
   \<and> filter is_handle_event (trace (fst (group_participants_update faulty_world nobody opened)))
       = []"
  by (simp add: group_participants_update_def effect_defs faulty_world_def opened_eq nobody_def)

text \<open>
  C10, amended. When \<^verbatim>\<open>handleGroupParticipantsUpdate\<close> returns, the listener calls
  \<^verbatim>\<open>handleEvent\<close> once, with the group id and the first participant only, and with
  \<^verbatim>\<open>undefined\<close> in its place when the list is empty. In every case, a call of
  \<^verbatim>\<open>handleEvent\<close> made by the listener has these arguments.
\<close>

theorem member_join_passes_first_participant:
  "(\<not> throws w (trace s) (HandleGroupParticipantsUpdate (sock s) u) \<longrightarrow>
      (participants u = [] \<longrightarrow>
         trace (fst (group_participants_update w u s))
           = trace s @ [HandleGroupParticipantsUpdate (sock s) u,
                        HandleEvent ''groupMemberJoin'' (sock s) [Str (update_id u), Undefined]])
      \<and> (\<forall>p ps. participants u = p # ps \<longrightarrow>
         trace (fst (group_participants_update w u s))
           = trace s @ [HandleGroupParticipantsUpdate (sock s) u,
                        HandleEvent ''groupMemberJoin'' (sock s) [Str (update_id u), Str p]]))
   \<and> (\<forall>e \<in> set (drop (length (trace s)) (trace (fst (group_participants_update w u s)))).
        is_handle_event e \<longrightarrow>
        e = HandleEvent ''groupMemberJoin'' (sock s)
              [Str (update_id u), first_participant (participants u)])"
  by (simp add: group_participants_update_def effect_defs first_participant_def)

theorem member_join_passes_first_participant_witness:
  "\<not> throws quiet_world (trace opened) (HandleGroupParticipantsUpdate (sock opened) joined)
   \<and> participants joined = [''3@s.whatsapp.net'', ''4@s.whatsapp.net'']
   \<and> trace (fst (group_participants_update quiet_world joined opened))
       = trace opened @ [HandleGroupParticipantsUpdate (Some 0) joined,
                         HandleEvent ''groupMemberJoin'' (Some 0)
                           [Str ''g@g.us'', Str ''3@s.whatsapp.net'']]
   \<and> \<not> throws quiet_world (trace opened)
         (HandleGroupParticipantsUpdate (sock opened) (joined\<lparr>participants := []\<rparr>))
   \<and> trace (fst (group_participants_update quiet_world (joined\<lparr>participants := []\<rparr>) opened))
       = trace opened @ [HandleGroupParticipantsUpdate (Some 0) (joined\<lparr>participants := []\<rparr>),
                         HandleEvent ''groupMemberJoin'' (Some 0) [Str ''g@g.us'', Undefined]]"
proof -
  have h: "\<not> throws quiet_world (trace opened)
             (HandleGroupParticipantsUpdate (sock opened) joined)"
    "\<not> throws quiet_world (trace opened)
         (HandleGroupParticipantsUpdate (sock opened) (joined\<lparr>participants := []\<rparr>))"
    by (simp_all add: quiet_world_def)
  have p: "participants joined = [''3@s.whatsapp.net'', ''4@s.whatsapp.net'']"
    "update_id joined = ''g@g.us''" "sock opened = Some 0"
    by (simp_all add: joined_def opened_eq)
  show ?thesis
    using member_join_passes_first_participant [of quiet_world opened joined]
          member_join_passes_first_participant
            [of quiet_world opened "joined\<lparr>participants := []\<rparr>"] h p
    by simp
qed

end
